theory Spec2Isabelle
  imports Complex_Main
begin

section \<open>Decoded JSON values and the Python operations applied to them\<close>

text \<open>
  The dashboard (\<^verbatim>\<open>dash.py\<close>) reads two endpoints of a price service and turns the
  decoded JSON into tables. A decoded value is dynamically typed, so the model keeps the
  tag: \<^verbatim>\<open>None\<close>, \<^verbatim>\<open>bool\<close>, a number, \<^verbatim>\<open>str\<close>, \<^verbatim>\<open>list\<close> or \<^verbatim>\<open>dict\<close>.
  A dict is an association list in insertion order; a decoded dict has distinct keys.

  Numbers are real numbers here: Python's \<^verbatim>\<open>int\<close> and \<^verbatim>\<open>float\<close> are not told apart, and
  the rounding of binary floating point, its infinities and NaN, and the
  \<^verbatim>\<open>OverflowError\<close> of an integer too large for a float are not modelled. The theorems
  below about line 51 say which operand makes it raise; the quotients they state are
  divisions by 1, which binary floating point computes exactly as well.
\<close>

datatype json =
    JNull
  | JBool bool
  | JNum real
  | JStr string
  | JArr "json list"
  | JObj "(string \<times> json) list"

text \<open>Every exception the modelled code can raise inside its \<^verbatim>\<open>try\<close> blocks.\<close>

datatype py_error =
    RequestException
  | HTTPError
  | JSONDecodeError
  | AttributeError
  | TypeError
  | ValueError
  | ZeroDivisionError
  | OutOfBoundsDatetime

text \<open>Sequencing of statements that may raise: the first exception ends the block.\<close>

definition and_then :: "py_error + 'a \<Rightarrow> ('a \<Rightarrow> py_error + 'b) \<Rightarrow> py_error + 'b" where
  "and_then r k = (case r of Inl e \<Rightarrow> Inl e | Inr v \<Rightarrow> k v)"

text \<open>
  A list comprehension or a \<^verbatim>\<open>for\<close> loop that appends one result per element, in order;
  an exception at one element abandons the whole list.
\<close>

fun collect :: "('a \<Rightarrow> py_error + 'b) \<Rightarrow> 'a list \<Rightarrow> py_error + 'b list" where
  "collect f [] = Inr []"
| "collect f (x # xs) =
     (case f x of
        Inl e \<Rightarrow> Inl e
      | Inr y \<Rightarrow> (case collect f xs of Inl e \<Rightarrow> Inl e | Inr ys \<Rightarrow> Inr (y # ys)))"

text \<open>\<^verbatim>\<open>d.get(k, default)\<close> on a dict.\<close>

definition dict_get :: "(string \<times> json) list \<Rightarrow> string \<Rightarrow> json \<Rightarrow> json" where
  "dict_get d k dflt = (case map_of d k of None \<Rightarrow> dflt | Some v \<Rightarrow> v)"

text \<open>Truth value of an object, and \<^verbatim>\<open>x or y\<close>, which returns \<^verbatim>\<open>x\<close> itself when it is true.\<close>

fun truthy :: "json \<Rightarrow> bool" where
  "truthy JNull = False"
| "truthy (JBool b) = b"
| "truthy (JNum x) = (x \<noteq> 0)"
| "truthy (JStr s) = (s \<noteq> [])"
| "truthy (JArr xs) = (xs \<noteq> [])"
| "truthy (JObj kvs) = (kvs \<noteq> [])"

definition py_or :: "json \<Rightarrow> json \<Rightarrow> json" where
  "py_or x y = (if truthy x then x else y)"

text \<open>
  The operands Python's arithmetic accepts: numbers, and booleans as 0 and 1. Any other
  operand of \<^verbatim>\<open>/\<close> raises \<^verbatim>\<open>TypeError\<close>.
\<close>

fun as_number :: "json \<Rightarrow> real option" where
  "as_number (JNum x) = Some x"
| "as_number (JBool b) = Some (if b then 1 else 0)"
| "as_number _ = None"

text \<open>\<^verbatim>\<open>a / b\<close> with a numeric right operand: true division, raising on a zero divisor.\<close>

definition truediv :: "json \<Rightarrow> real \<Rightarrow> py_error + real" where
  "truediv a b =
     (case as_number a of
        None \<Rightarrow> Inl TypeError
      | Some x \<Rightarrow> if b = 0 then Inl ZeroDivisionError else Inr (x / b))"

text \<open>
  \<^verbatim>\<open>float(x)\<close>. What \<^verbatim>\<open>float\<close> makes of a string is Python's own parser, taken as the
  parameter \<open>str_float\<close> (\<open>None\<close>: the string is no number, \<^verbatim>\<open>ValueError\<close>).
\<close>

fun float_py :: "(string \<Rightarrow> real option) \<Rightarrow> json \<Rightarrow> py_error + real" where
  "float_py str_float (JNum x) = Inr x"
| "float_py str_float (JBool b) = Inr (if b then 1 else 0)"
| "float_py str_float (JStr s) =
     (case str_float s of None \<Rightarrow> Inl ValueError | Some x \<Rightarrow> Inr x)"
| "float_py str_float _ = Inl TypeError"

text \<open>
  \<^verbatim>\<open>str.upper()\<close> for ASCII text, which the identifiers of the endpoint are (lower-case
  letters, digits and hyphens). Python's mapping of other letters is not modelled: a
  character outside \<open>a\<close> to \<open>z\<close> is left as it is.
\<close>

definition upper_char :: "char \<Rightarrow> char" where
  "upper_char c =
     (let n = (of_char c :: nat) in if 97 \<le> n \<and> n \<le> 122 then char_of (n - 32) else c)"

definition upper :: "string \<Rightarrow> string" where
  "upper s = map upper_char s"

section \<open>The HTTP exchange\<close>

text \<open>
  What reaches the three library calls at the head of each \<^verbatim>\<open>try\<close> block:
  \<^verbatim>\<open>requests.get(url, params=params, timeout=10)\<close> raises when no response arrives
  (timeout, connection error); otherwise there is a response with a status code and a
  body, which either is JSON text (here: the value it decodes to) or is not.
\<close>

datatype 'a response =
    Transport_Failure
  | Reply nat "'a option"

text \<open>A response with status 200 whose body decodes to \<open>v\<close>.\<close>

abbreviation Decoded :: "'a \<Rightarrow> 'a response" where
  "Decoded v \<equiv> Reply 200 (Some v)"

text \<open>
  \<^verbatim>\<open>r.raise_for_status()\<close> raises \<^verbatim>\<open>HTTPError\<close> for the status codes 400 to 599 and for no
  other; then \<^verbatim>\<open>r.json()\<close> raises on a body that is not JSON.
\<close>

fun request_json :: "'a response \<Rightarrow> py_error + 'a" where
  "request_json Transport_Failure = Inl RequestException"
| "request_json (Reply code body) =
     (if 400 \<le> code \<and> code < 600 then Inl HTTPError
      else case body of None \<Rightarrow> Inl JSONDecodeError | Some v \<Rightarrow> Inr v)"

section \<open>The live snapshot: \<^verbatim>\<open>fetch_live_prices\<close>\<close>

text \<open>
  Line 51, the synthesized sparkline:
  \<^verbatim>\<open>[last_price / (1 + change_pct/100 * (i/6)) for i in range(6, -1, -1)]\<close>.
  The divisor is evaluated first (\<^verbatim>\<open>change_pct/100\<close> raises on a non-number), then the
  division (which raises on a non-numeric \<^verbatim>\<open>last_price\<close> or a zero divisor).
\<close>

definition spark_divisor :: "json \<Rightarrow> nat \<Rightarrow> py_error + real" where
  "spark_divisor change_pct i =
     (case as_number change_pct of
        None \<Rightarrow> Inl TypeError
      | Some c \<Rightarrow> Inr (1 + c / 100 * (real i / 6)))"

definition spark_point :: "json \<Rightarrow> json \<Rightarrow> nat \<Rightarrow> py_error + real" where
  "spark_point last_price change_pct i =
     and_then (spark_divisor change_pct i) (truediv last_price)"

definition sparkline :: "json \<Rightarrow> json \<Rightarrow> py_error + real list" where
  "sparkline last_price change_pct =
     collect (spark_point last_price change_pct) [6, 5, 4, 3, 2, 1, 0]"

text \<open>One row of the table; the column \<^verbatim>\<open>"open"\<close> holds the sparkline.\<close>

record snapshot_row =
  row_id :: string
  ticker :: string
  last_price :: real
  change_pct :: real
  volume :: real
  market_cap :: real
  open_col :: "real list"

text \<open>
  The body of the loop over \<^verbatim>\<open>live.items()\<close> (lines 46 to 60) for one ticker. The
  price is read with \<^verbatim>\<open>metrics.get("usd", 0)\<close>, the other three fields with
  \<^verbatim>\<open>metrics.get(..., 0) or 0\<close>. \<^verbatim>\<open>metrics.get\<close> on anything but a dict raises
  \<^verbatim>\<open>AttributeError\<close>.
\<close>

definition snapshot_entry ::
  "(string \<Rightarrow> real option) \<Rightarrow> string \<times> json \<Rightarrow> py_error + snapshot_row" where
  "snapshot_entry str_float entry =
     (case entry of
        (tk, JObj metrics) \<Rightarrow>
          (let price = dict_get metrics ''usd'' (JNum 0);
               change = py_or (dict_get metrics ''usd_24h_change'' (JNum 0)) (JNum 0)
           in and_then (sparkline price change) (\<lambda>spark.
              and_then (float_py str_float price) (\<lambda>p.
              and_then (float_py str_float change) (\<lambda>c.
              and_then (float_py str_float
                          (py_or (dict_get metrics ''usd_24h_vol'' (JNum 0)) (JNum 0))) (\<lambda>v.
              and_then (float_py str_float
                          (py_or (dict_get metrics ''usd_market_cap'' (JNum 0)) (JNum 0))) (\<lambda>m.
              Inr \<lparr>row_id = tk, ticker = upper tk, last_price = p, change_pct = c,
                   volume = v, market_cap = m, open_col = spark\<rparr>))))))
      | (tk, _) \<Rightarrow> Inl AttributeError)"

text \<open>
  The \<^verbatim>\<open>try\<close> block (lines 41 to 61): \<^verbatim>\<open>live.items()\<close> needs a dict, and the rows are
  built in the order of its items.
\<close>

definition live_rows ::
  "(string \<Rightarrow> real option) \<Rightarrow> json response \<Rightarrow> py_error + snapshot_row list" where
  "live_rows str_float resp =
     and_then (request_json resp) (\<lambda>live.
       case live of
         JObj items \<Rightarrow> collect (snapshot_entry str_float) items
       | _ \<Rightarrow> Inl AttributeError)"

text \<open>
  The function: the bare \<^verbatim>\<open>except:\<close> turns every exception of the block into the empty
  \<^verbatim>\<open>DataFrame\<close>. A table is the list of its rows.
\<close>

definition fetch_live_prices ::
  "(string \<Rightarrow> real option) \<Rightarrow> json response \<Rightarrow> snapshot_row list" where
  "fetch_live_prices str_float resp =
     (case live_rows str_float resp of Inl e \<Rightarrow> [] | Inr rows \<Rightarrow> rows)"

section \<open>The historical chart: \<^verbatim>\<open>fetch_historical_market_chart\<close>\<close>

text \<open>
  The endpoint's payload is a dict whose entries \<^verbatim>\<open>"prices"\<close> and
  \<^verbatim>\<open>"total_volumes"\<close> are lists of \<^verbatim>\<open>[timestamp, value]\<close> pairs: a timestamp is an
  integer count of milliseconds, a value is a number or \<^verbatim>\<open>null\<close> (\<open>None\<close>, NaN in the
  frame). Such a pair is a \<open>sample\<close>.

  A decoded body can miss this shape. The model covers these ways: the body is no dict;
  a series is \<^verbatim>\<open>null\<close>; a series is a number, a string or a boolean; a row has more
  than two cells; a timestamp is a boolean; a timestamp is an integer beyond the range
  of a pandas datetime. Other shapes (a series that is a dict, rows that are no lists,
  rows of fewer than two cells, timestamps that are strings, \<^verbatim>\<open>null\<close> or fractions,
  values that are no numbers) are outside the types below.
\<close>

type_synonym sample = "int \<times> real option"

datatype stamp =
    Ms int
  | Flag bool

datatype row_json =
    Row stamp "real option"
  | Wide_Row nat

datatype series_json =
    Table "row_json list"
  | Scalar_Value
  | Null_Value

datatype chart_json =
    Chart_Not_Object
  | Chart_Dict "(string \<times> series_json) list"

text \<open>The payload whose series are lists of samples.\<close>

definition sample_row :: "sample \<Rightarrow> row_json" where
  "sample_row s = Row (Ms (fst s)) (snd s)"

definition Chart_Object :: "(string \<times> sample list) list \<Rightarrow> chart_json" where
  "Chart_Object d = Chart_Dict (map (\<lambda>(k, rows). (k, Table (map sample_row rows))) d)"

text \<open>\<^verbatim>\<open>data.get(key, [])\<close>: on any payload, and on one whose series are lists of samples.\<close>

definition series_lookup :: "(string \<times> series_json) list \<Rightarrow> string \<Rightarrow> series_json" where
  "series_lookup d k = (case map_of d k of None \<Rightarrow> Table [] | Some s \<Rightarrow> s)"

definition series_get :: "(string \<times> sample list) list \<Rightarrow> string \<Rightarrow> sample list" where
  "series_get d k = (case map_of d k of None \<Rightarrow> [] | Some rows \<Rightarrow> rows)"

text \<open>
  Lines 73 and 74, \<^verbatim>\<open>pd.DataFrame(x, columns=[a, b])\<close>. \<^verbatim>\<open>None\<close> and the empty list give
  the empty frame; a scalar raises \<^verbatim>\<open>ValueError\<close>; a list of rows becomes a frame with
  as many columns as its longest row has cells (\<open>Wide_Row n\<close> stands for a row of
  \<open>3 + n\<close> cells), and \<^verbatim>\<open>ValueError\<close> is raised unless these are the two columns named.
\<close>

fun arity :: "row_json \<Rightarrow> nat" where
  "arity (Row s v) = 2"
| "arity (Wide_Row n) = 3 + n"

definition data_frame :: "series_json \<Rightarrow> py_error + (stamp \<times> real option) list" where
  "data_frame x =
     (case x of
        Null_Value \<Rightarrow> Inr []
      | Scalar_Value \<Rightarrow> Inl ValueError
      | Table rows \<Rightarrow>
          if rows = [] then Inr []
          else if fold max (map arity rows) 0 \<noteq> 2 then Inl ValueError
          else Inr (concat (map (\<lambda>r. case r of Row s v \<Rightarrow> [(s, v)] | Wide_Row n \<Rightarrow> []) rows)))"

text \<open>
  Lines 77 and 78, \<^verbatim>\<open>pd.to_datetime(frame["ts"], unit="ms")\<close>. The result counts
  nanoseconds in 64 bits, so a count of milliseconds beyond 9223372036854 either way
  raises \<^verbatim>\<open>OutOfBoundsDatetime\<close>; a boolean raises \<^verbatim>\<open>TypeError\<close>. In range the conversion
  is one-to-one, and the date is written as the count of milliseconds it came from.
\<close>

definition to_datetime :: "stamp \<Rightarrow> py_error + int" where
  "to_datetime s =
     (case s of
        Flag b \<Rightarrow> Inl TypeError
      | Ms t \<Rightarrow>
          if - 9223372036854 \<le> t \<and> t \<le> 9223372036854 then Inr t
          else Inl OutOfBoundsDatetime)"

definition with_dates :: "(stamp \<times> real option) list \<Rightarrow> py_error + sample list" where
  "with_dates frame =
     and_then (collect to_datetime (map fst frame)) (\<lambda>dates. Inr (zip dates (map snd frame)))"

text \<open>
  \<^verbatim>\<open>prices.merge(vols, on="date")\<close>: the inner join on equal dates. Every price row is
  paired with every volume row of the same date, in the order of the price rows (and,
  for one price row, of the volume rows).
\<close>

record joined_row =
  date :: int
  close :: "real option"
  volume_j :: "real option"

definition merge_on_date :: "sample list \<Rightarrow> sample list \<Rightarrow> joined_row list" where
  "merge_on_date prices vols =
     concat (map (\<lambda>(t, c).
        map (\<lambda>(u, v). \<lparr>date = t, close = c, volume_j = v\<rparr>)
            (filter (\<lambda>(u, v). u = t) vols)) prices)"

text \<open>
  Column operations: \<^verbatim>\<open>shift(1)\<close> moves a column down by one row and puts NaN first,
  \<^verbatim>\<open>a.fillna(b)\<close> takes \<^verbatim>\<open>b\<close>'s cell where \<^verbatim>\<open>a\<close>'s is NaN, and \<^verbatim>\<open>max(axis=1)\<close>,
  \<^verbatim>\<open>min(axis=1)\<close> skip NaN cells.
\<close>

definition shift1 :: "real option list \<Rightarrow> real option list" where
  "shift1 col = take (length col) (None # col)"

definition fillna :: "real option list \<Rightarrow> real option list \<Rightarrow> real option list" where
  "fillna col other = map (\<lambda>(x, y). case x of None \<Rightarrow> y | Some v \<Rightarrow> Some v) (zip col other)"

fun row_max :: "real option \<Rightarrow> real option \<Rightarrow> real option" where
  "row_max None y = y"
| "row_max (Some x) None = Some x"
| "row_max (Some x) (Some y) = Some (max x y)"

fun row_min :: "real option \<Rightarrow> real option \<Rightarrow> real option" where
  "row_min None y = y"
| "row_min (Some x) None = Some x"
| "row_min (Some x) (Some y) = Some (min x y)"

text \<open>
  A row of the returned frame: the five columns kept by line 83, and the row's index
  label. The merge numbers its rows from 0, and neither \<^verbatim>\<open>dropna\<close> nor line 84 changes
  a label: \<^verbatim>\<open>df.index\<close> is never \<^verbatim>\<open>None\<close>, so
  \<^verbatim>\<open>df.index = df.index if df.index is not None else df["date"]\<close> keeps the index.
\<close>

record bar =
  idx :: nat
  open_b :: "real option"
  high_b :: "real option"
  low_b :: "real option"
  close_b :: "real option"
  volume_b :: "real option"

definition ohlc_rows :: "joined_row list \<Rightarrow> bar list" where
  "ohlc_rows df =
     (let closes = map close df;
          opens = fillna (shift1 closes) closes
      in map (\<lambda>(i, op, r).
            \<lparr>idx = i, open_b = op, high_b = row_max op (close r),
             low_b = row_min op (close r), close_b = close r, volume_b = volume_j r\<rparr>)
           (zip [0 ..< length df] (zip opens df)))"

definition dropna :: "bar list \<Rightarrow> bar list" where
  "dropna df =
     filter (\<lambda>b. open_b b \<noteq> None \<and> high_b b \<noteq> None \<and> low_b b \<noteq> None
                 \<and> close_b b \<noteq> None \<and> volume_b b \<noteq> None) df"

text \<open>
  Lines 79 to 85, from the two dated frames to the returned one (with the test of lines
  75 and 76, which \<open>chart_rows\<close> below makes before the dates).
\<close>

definition chart_frame :: "sample list \<Rightarrow> sample list \<Rightarrow> bar list" where
  "chart_frame prices vols =
     (if prices = [] \<or> vols = [] then []
      else dropna (ohlc_rows (merge_on_date prices vols)))"

text \<open>The \<^verbatim>\<open>try\<close> block, lines 70 to 85, in the order of its statements.\<close>

definition chart_rows :: "chart_json response \<Rightarrow> py_error + bar list" where
  "chart_rows resp =
     and_then (request_json resp) (\<lambda>data.
       case data of
         Chart_Not_Object \<Rightarrow> Inl AttributeError
       | Chart_Dict d \<Rightarrow>
           and_then (data_frame (series_lookup d ''prices'')) (\<lambda>prices.
           and_then (data_frame (series_lookup d ''total_volumes'')) (\<lambda>vols.
             if prices = [] \<or> vols = [] then Inr []
             else and_then (with_dates prices) (\<lambda>p.
                  and_then (with_dates vols) (\<lambda>v.
                  Inr (chart_frame p v))))))"

definition fetch_historical_market_chart :: "chart_json response \<Rightarrow> bar list" where
  "fetch_historical_market_chart resp =
     (case chart_rows resp of Inl e \<Rightarrow> [] | Inr df \<Rightarrow> df)"

section \<open>Plot helper: \<^verbatim>\<open>build_sparkline\<close>\<close>

text \<open>
  The watchlist passes \<^verbatim>\<open>rec["open"]\<close>, a Python list of floats. \<^verbatim>\<open>hasattr\<close> on a list
  looks the name up among the attributes of \<^verbatim>\<open>list\<close> and \<^verbatim>\<open>object\<close>.
\<close>

definition list_attributes :: "string list" where
  "list_attributes =
     [''__add__'', ''__class__'', ''__class_getitem__'', ''__contains__'', ''__delattr__'',
      ''__delitem__'', ''__dir__'', ''__doc__'', ''__eq__'', ''__format__'', ''__ge__'',
      ''__getattribute__'', ''__getitem__'', ''__getstate__'', ''__gt__'', ''__hash__'',
      ''__iadd__'', ''__imul__'', ''__init__'', ''__init_subclass__'', ''__iter__'',
      ''__le__'', ''__len__'', ''__lt__'', ''__mul__'', ''__ne__'', ''__new__'',
      ''__reduce__'', ''__reduce_ex__'', ''__repr__'', ''__reversed__'', ''__rmul__'',
      ''__setattr__'', ''__setitem__'', ''__sizeof__'', ''__str__'', ''__subclasshook__'',
      ''append'', ''clear'', ''copy'', ''count'', ''extend'', ''index'', ''insert'', ''pop'',
      ''remove'', ''reverse'', ''sort'']"

definition hasattr_list :: "string \<Rightarrow> bool" where
  "hasattr_list name = (name \<in> set list_attributes)"

text \<open>Lines 93 and 94: the \<^verbatim>\<open>y\<close> values handed to \<^verbatim>\<open>go.Scatter\<close>.\<close>

definition build_sparkline :: "real list \<Rightarrow> real list" where
  "build_sparkline series =
     (let y = (if hasattr_list ''iter'' then series else [0, 0])
      in if length y < 2 then [0, 0] else y)"

section \<open>Exceptions inside the \<^verbatim>\<open>try\<close> block of the snapshot\<close>

lemma collect_raises_iff:
  "(\<exists>e. collect f xs = Inl e) \<longleftrightarrow> (\<exists>x \<in> set xs. \<exists>e. f x = Inl e)"
  by (induction xs) (auto split: sum.splits)

lemma fetch_live_prices_except:
  "live_rows sf resp = Inl e \<Longrightarrow> fetch_live_prices sf resp = []"
  by (simp add: fetch_live_prices_def)

lemma live_rows_entry_raises:
  assumes "entry \<in> set items" and "snapshot_entry sf entry = Inl e"
  shows "\<exists>e'. live_rows sf (Decoded (JObj items)) = Inl e'"
proof -
  have "\<exists>x \<in> set items. \<exists>e. snapshot_entry sf x = Inl e"
    using assms by blast
  then have "\<exists>e'. collect (snapshot_entry sf) items = Inl e'"
    by (simp only: collect_raises_iff)
  then show ?thesis
    by (simp add: live_rows_def and_then_def)
qed

lemma spark_point_numbers:
  "spark_point (JNum p) (JNum c) i =
     (if 1 + c / 100 * (real i / 6) = 0 then Inl ZeroDivisionError
      else Inr (p / (1 + c / 100 * (real i / 6))))"
  by (simp add: spark_point_def spark_divisor_def and_then_def truediv_def)

text \<open>The comprehension starts at \<open>i = 6\<close>: an exception there is the comprehension's.\<close>

lemma sparkline_first_raises:
  "spark_point p c 6 = Inl e \<Longrightarrow> sparkline p c = Inl e"
  by (simp add: sparkline_def)

lemma spark_point_minus_100:
  "\<exists>e. spark_point p (JNum (- 100)) 6 = Inl e"
  by (cases "as_number p")
    (simp_all add: spark_point_def spark_divisor_def and_then_def truediv_def)

lemma snapshot_entry_sparkline_raises:
  assumes "sparkline (dict_get metrics ''usd'' (JNum 0))
             (py_or (dict_get metrics ''usd_24h_change'' (JNum 0)) (JNum 0)) = Inl e"
  shows "snapshot_entry sf (tk, JObj metrics) = Inl e"
  using assms by (simp add: snapshot_entry_def and_then_def Let_def)

lemma change_minus_100:
  "map_of metrics ''usd_24h_change'' = Some (JNum (- 100)) \<Longrightarrow>
     py_or (dict_get metrics ''usd_24h_change'' (JNum 0)) (JNum 0) = JNum (- 100)"
  by (simp add: dict_get_def py_or_def)

lemma snapshot_entry_minus_100:
  assumes "map_of metrics ''usd_24h_change'' = Some (JNum (- 100))"
  shows "\<exists>e. snapshot_entry sf (tk, JObj metrics) = Inl e"
proof -
  obtain e where "spark_point (dict_get metrics ''usd'' (JNum 0)) (JNum (- 100)) 6 = Inl e"
    using spark_point_minus_100 by blast
  then have "sparkline (dict_get metrics ''usd'' (JNum 0)) (JNum (- 100)) = Inl e"
    by (rule sparkline_first_raises)
  then show ?thesis
    using snapshot_entry_sparkline_raises [of metrics e sf tk] change_minus_100 [OF assms]
    by auto
qed

lemma snapshot_entry_null_usd:
  assumes "map_of metrics ''usd'' = Some JNull"
  shows "snapshot_entry sf (tk, JObj metrics) = Inl TypeError"
proof -
  have "spark_point JNull c 6 = Inl TypeError" for c
    by (cases "as_number c")
      (simp_all add: spark_point_def spark_divisor_def and_then_def truediv_def)
  then have "sparkline JNull c = Inl TypeError" for c
    by (rule sparkline_first_raises)
  moreover have "dict_get metrics ''usd'' (JNum 0) = JNull"
    using assms by (simp add: dict_get_def)
  ultimately show ?thesis
    using snapshot_entry_sparkline_raises [of metrics TypeError sf tk] by simp
qed

section \<open>The sparkline at a 24h change of -100 percent\<close>

text \<open>
  C1, as the specification states it: for an instrument with \<open>change_pct = -100\<close> the
  division by zero at \<open>i = 6\<close> is guarded, and the sparkline is computed without an
  arithmetic error. Line 51 has no guard: at a price of 100 the comprehension raises
  \<^verbatim>\<open>ZeroDivisionError\<close>.
\<close>

theorem sparkline_minus_100_unguarded:
  "sparkline (JNum 100) (JNum (- 100)) = Inl ZeroDivisionError"
  by (simp add: sparkline_def spark_point_numbers)

text \<open>
  C1, amended: at \<open>change_pct = -100\<close> the divisor at \<open>i = 6\<close> is zero and, for every
  numeric price, the comprehension raises \<^verbatim>\<open>ZeroDivisionError\<close>; the \<^verbatim>\<open>except\<close> clause
  of \<^verbatim>\<open>fetch_live_prices\<close> catches it, so that a snapshot holding such an instrument
  comes back as the empty table and no error reaches the caller.
\<close>

theorem change_minus_100_empties_snapshot:
  "spark_divisor (JNum (- 100)) 6 = Inr 0
   \<and> sparkline (JNum p) (JNum (- 100)) = Inl ZeroDivisionError
   \<and> ((tk, JObj metrics) \<in> set items
        \<and> map_of metrics ''usd_24h_change'' = Some (JNum (- 100))
      \<longrightarrow> fetch_live_prices sf (Decoded (JObj items)) = [])"
proof (intro conjI impI)
  show "spark_divisor (JNum (- 100)) 6 = Inr 0"
    by (simp add: spark_divisor_def)
  show "sparkline (JNum p) (JNum (- 100)) = Inl ZeroDivisionError"
    by (simp add: sparkline_def spark_point_numbers)
  assume a: "(tk, JObj metrics) \<in> set items
    \<and> map_of metrics ''usd_24h_change'' = Some (JNum (- 100))"
  then obtain e where "snapshot_entry sf (tk, JObj metrics) = Inl e"
    using snapshot_entry_minus_100 by blast
  with a obtain e' where "live_rows sf (Decoded (JObj items)) = Inl e'"
    using live_rows_entry_raises by blast
  then show "fetch_live_prices sf (Decoded (JObj items)) = []"
    by (rule fetch_live_prices_except)
qed

theorem change_minus_100_empties_snapshot_witness:
  "sparkline (JNum 250) (JNum (- 100)) = Inl ZeroDivisionError
   \<and> fetch_live_prices (\<lambda>s. None)
       (Decoded (JObj [(''bitcoin'',
          JObj [(''usd'', JNum 250), (''usd_24h_change'', JNum (- 100))])])) = []"
  using change_minus_100_empties_snapshot [of 250 "''bitcoin''"
      "[(''usd'', JNum 250), (''usd_24h_change'', JNum (- 100))]"
      "[(''bitcoin'', JObj [(''usd'', JNum 250), (''usd_24h_change'', JNum (- 100))])]"
      "\<lambda>s. None"]
  by simp

section \<open>Missing and null fields of a snapshot entry\<close>

lemma upper_bitcoin: "upper ''bitcoin'' = ''BITCOIN''"
  by code_simp

text \<open>
  Whenever an entry yields a row, a missing or \<^verbatim>\<open>null\<close> \<^verbatim>\<open>usd_24h_change\<close> has become
  the change 0: \<^verbatim>\<open>metrics.get("usd_24h_change", 0) or 0\<close>.
\<close>

lemma snapshot_entry_change_default:
  assumes "snapshot_entry sf (tk, JObj metrics) = Inr r"
    and "map_of metrics ''usd_24h_change'' = None \<or> map_of metrics ''usd_24h_change'' = Some JNull"
  shows "change_pct r = 0"
proof -
  have "py_or (dict_get metrics ''usd_24h_change'' (JNum 0)) (JNum 0) = JNum 0"
    using assms(2) by (auto simp: dict_get_def py_or_def)
  with assms(1) show ?thesis
    by (auto simp: snapshot_entry_def and_then_def Let_def split: sum.splits)
qed

text \<open>
  C5 claims that every missing or \<^verbatim>\<open>null\<close> numeric field of an entry (\<^verbatim>\<open>usd\<close>,
  \<^verbatim>\<open>usd_24h_change\<close>, \<^verbatim>\<open>usd_24h_vol\<close>, \<^verbatim>\<open>usd_market_cap\<close>) becomes 0 in the row.
  The code at an entry whose price is \<^verbatim>\<open>null\<close>: the price is read without \<^verbatim>\<open>or 0\<close>
  and stays \<^verbatim>\<open>None\<close>, the division of line 51 raises \<^verbatim>\<open>TypeError\<close>, and the snapshot
  is the empty table. The three fields read with \<^verbatim>\<open>or 0\<close> do default: an entry with
  these three \<^verbatim>\<open>null\<close> gives a row with change, volume and market cap 0.
\<close>

theorem null_price_is_not_defaulted:
  "snapshot_entry sf (''bitcoin'', JObj [(''usd'', JNull), (''usd_24h_change'', JNum 2)])
     = Inl TypeError
   \<and> fetch_live_prices sf
       (Decoded (JObj [(''bitcoin'', JObj [(''usd'', JNull), (''usd_24h_change'', JNum 2)])])) = []
   \<and> fetch_live_prices sf
       (Decoded (JObj [(''bitcoin'', JObj [(''usd'', JNum 5), (''usd_24h_change'', JNull),
          (''usd_24h_vol'', JNull), (''usd_market_cap'', JNull)])]))
     = [\<lparr>row_id = ''bitcoin'', ticker = ''BITCOIN'', last_price = 5, change_pct = 0,
          volume = 0, market_cap = 0, open_col = [5, 5, 5, 5, 5, 5, 5]\<rparr>]"
proof (intro conjI)
  show a: "snapshot_entry sf (''bitcoin'', JObj [(''usd'', JNull), (''usd_24h_change'', JNum 2)])
     = Inl TypeError"
    by (rule snapshot_entry_null_usd) simp
  show "fetch_live_prices sf
       (Decoded (JObj [(''bitcoin'', JObj [(''usd'', JNull), (''usd_24h_change'', JNum 2)])])) = []"
    by (simp add: fetch_live_prices_def live_rows_def and_then_def a)
  have "sparkline (JNum 5) (JNum 0) = Inr [5, 5, 5, 5, 5, 5, 5]"
    by (simp add: sparkline_def spark_point_numbers)
  then show "fetch_live_prices sf
       (Decoded (JObj [(''bitcoin'', JObj [(''usd'', JNum 5), (''usd_24h_change'', JNull),
          (''usd_24h_vol'', JNull), (''usd_market_cap'', JNull)])]))
     = [\<lparr>row_id = ''bitcoin'', ticker = ''BITCOIN'', last_price = 5, change_pct = 0,
          volume = 0, market_cap = 0, open_col = [5, 5, 5, 5, 5, 5, 5]\<rparr>]"
    by (simp add: fetch_live_prices_def live_rows_def and_then_def snapshot_entry_def
        dict_get_def py_or_def upper_bitcoin)
qed

section \<open>One failing entry empties the snapshot\<close>

text \<open>
  C9: the snapshot is all or nothing. If the loop body raises for any one entry, the
  function returns the empty table and the rows built before are lost; a \<^verbatim>\<open>null\<close>
  price raises (\<^verbatim>\<open>TypeError\<close>), and so does a change of -100.
\<close>

theorem snapshot_all_or_nothing:
  "((\<exists>entry \<in> set items. \<exists>e. snapshot_entry sf entry = Inl e)
      \<longrightarrow> fetch_live_prices sf (Decoded (JObj items)) = [])
   \<and> (map_of metrics ''usd'' = Some JNull
      \<longrightarrow> snapshot_entry sf (tk, JObj metrics) = Inl TypeError)
   \<and> (map_of metrics ''usd_24h_change'' = Some (JNum (- 100))
      \<longrightarrow> (\<exists>e. snapshot_entry sf (tk, JObj metrics) = Inl e))"
proof (intro conjI impI)
  assume "\<exists>entry \<in> set items. \<exists>e. snapshot_entry sf entry = Inl e"
  then obtain e' where "live_rows sf (Decoded (JObj items)) = Inl e'"
    using live_rows_entry_raises by blast
  then show "fetch_live_prices sf (Decoded (JObj items)) = []"
    by (rule fetch_live_prices_except)
next
  assume "map_of metrics ''usd'' = Some JNull"
  then show "snapshot_entry sf (tk, JObj metrics) = Inl TypeError"
    by (rule snapshot_entry_null_usd)
next
  assume "map_of metrics ''usd_24h_change'' = Some (JNum (- 100))"
  then show "\<exists>e. snapshot_entry sf (tk, JObj metrics) = Inl e"
    by (rule snapshot_entry_minus_100)
qed

theorem snapshot_all_or_nothing_witness:
  "fetch_live_prices (\<lambda>s. None)
     (Decoded (JObj [(''bitcoin'', JObj [(''usd'', JNum 5)])]))
     = [\<lparr>row_id = ''bitcoin'', ticker = ''BITCOIN'', last_price = 5, change_pct = 0,
          volume = 0, market_cap = 0, open_col = [5, 5, 5, 5, 5, 5, 5]\<rparr>]
   \<and> fetch_live_prices (\<lambda>s. None)
     (Decoded (JObj [(''bitcoin'', JObj [(''usd'', JNum 5)]),
                     (''ethereum'', JObj [(''usd'', JNull)])])) = []
   \<and> fetch_live_prices (\<lambda>s. None)
     (Decoded (JObj [(''bitcoin'', JObj [(''usd'', JNum 5)]),
                     (''ethereum'', JObj [(''usd'', JNum 7), (''usd_24h_change'', JNum (- 100))])])) = []"
proof (intro conjI)
  have "sparkline (JNum 5) (JNum 0) = Inr [5, 5, 5, 5, 5, 5, 5]"
    by (simp add: sparkline_def spark_point_numbers)
  then show "fetch_live_prices (\<lambda>s. None)
     (Decoded (JObj [(''bitcoin'', JObj [(''usd'', JNum 5)])]))
     = [\<lparr>row_id = ''bitcoin'', ticker = ''BITCOIN'', last_price = 5, change_pct = 0,
          volume = 0, market_cap = 0, open_col = [5, 5, 5, 5, 5, 5, 5]\<rparr>]"
    by (simp add: fetch_live_prices_def live_rows_def and_then_def snapshot_entry_def
        dict_get_def py_or_def upper_bitcoin)
  have n: "snapshot_entry (\<lambda>s. None) (''ethereum'', JObj [(''usd'', JNull)]) = Inl TypeError"
    using snapshot_all_or_nothing [of "[]" "\<lambda>s. None" "[(''usd'', JNull)]" "''ethereum''"] by simp
  show "fetch_live_prices (\<lambda>s. None)
     (Decoded (JObj [(''bitcoin'', JObj [(''usd'', JNum 5)]),
                     (''ethereum'', JObj [(''usd'', JNull)])])) = []"
    using snapshot_all_or_nothing [of "[(''bitcoin'', JObj [(''usd'', JNum 5)]), (''ethereum'', JObj [(''usd'', JNull)])]"
        "\<lambda>s. None"] n by simp
  have z: "\<exists>e. snapshot_entry (\<lambda>s. None)
      (''ethereum'', JObj [(''usd'', JNum 7), (''usd_24h_change'', JNum (- 100))]) = Inl e"
    using snapshot_all_or_nothing [of "[]" "\<lambda>s. None" "[(''usd'', JNum 7), (''usd_24h_change'', JNum (- 100))]" "''ethereum''"]
    by simp
  show "fetch_live_prices (\<lambda>s. None)
     (Decoded (JObj [(''bitcoin'', JObj [(''usd'', JNum 5)]),
                     (''ethereum'', JObj [(''usd'', JNum 7), (''usd_24h_change'', JNum (- 100))])])) = []"
    using snapshot_all_or_nothing [of "[(''bitcoin'', JObj [(''usd'', JNum 5)]),
                     (''ethereum'', JObj [(''usd'', JNum 7), (''usd_24h_change'', JNum (- 100))])]"
        "\<lambda>s. None"] z by simp
qed

text \<open>
  The theorems above are stated for the status 200. They hold for every status on which
  \<^verbatim>\<open>raise_for_status\<close> does not raise, since the status is not looked at again.
\<close>

lemma status_outside_errors:
  "\<not> (400 \<le> code \<and> code < 600) \<Longrightarrow>
     fetch_live_prices sf (Reply code (Some v)) = fetch_live_prices sf (Decoded v)"
  by (auto simp: fetch_live_prices_def live_rows_def)

section \<open>The frames of the chart\<close>

text \<open>A payload whose series are lists of samples gives frames with these samples as rows.\<close>

lemma fold_max_twos:
  "\<forall>x \<in> set xs. x = (2::nat) \<Longrightarrow> fold max xs m = (if xs = [] then m else max 2 m)"
  by (induction xs arbitrary: m) (auto simp: max_def)

lemma data_frame_samples:
  "data_frame (Table (map sample_row rows)) = Inr (map (\<lambda>s. (Ms (fst s), snd s)) rows)"
proof -
  have cells: "concat (map (\<lambda>r. case r of Row s v \<Rightarrow> [(s, v)] | Wide_Row n \<Rightarrow> [])
          (map sample_row rows)) = map (\<lambda>s. (Ms (fst s), snd s)) rows"
    by (induction rows) (auto simp: sample_row_def)
  have "\<forall>x \<in> set (map arity (map sample_row rows)). x = 2"
    by (auto simp: sample_row_def)
  then have "fold max (map arity (map sample_row rows)) 0 = (if rows = [] then 0 else 2)"
    by (simp only: fold_max_twos) simp
  with cells show ?thesis
    by (simp add: data_frame_def del: map_map)
qed

lemma series_lookup_samples:
  "series_lookup (map (\<lambda>(k, rows). (k, Table (map sample_row rows))) d) k
     = Table (map sample_row (series_get d k))"
  by (induction d) (auto simp: series_lookup_def series_get_def)

lemma with_dates_samples:
  assumes "\<forall>s \<in> set rows. - 9223372036854 \<le> fst s \<and> fst s \<le> 9223372036854"
  shows "with_dates (map (\<lambda>s. (Ms (fst s), snd s)) rows) = Inr rows"
proof -
  have "collect to_datetime (map fst (map (\<lambda>s. (Ms (fst s), snd s)) rows)) = Inr (map fst rows)"
    using assms by (induction rows) (auto simp: to_datetime_def)
  moreover have "map snd (map (\<lambda>s. (Ms (fst s), snd s)) rows) = map snd rows"
    by simp
  ultimately show ?thesis
    by (simp add: with_dates_def and_then_def zip_map_fst_snd del: map_map)
qed

lemma chart_rows_samples:
  "chart_rows (Decoded (Chart_Object d)) =
     (if series_get d ''prices'' = [] \<or> series_get d ''total_volumes'' = [] then Inr []
      else and_then (with_dates (map (\<lambda>s. (Ms (fst s), snd s)) (series_get d ''prices''))) (\<lambda>p.
           and_then (with_dates (map (\<lambda>s. (Ms (fst s), snd s)) (series_get d ''total_volumes'')))
             (\<lambda>v. Inr (chart_frame p v))))"
  by (simp add: chart_rows_def Chart_Object_def and_then_def series_lookup_samples
      data_frame_samples)

text \<open>With every timestamp in the datetime range, the chart is what lines 79 to 85 make.\<close>

lemma chart_rows_in_range:
  assumes "\<forall>s \<in> set prices. - 9223372036854 \<le> fst s \<and> fst s \<le> 9223372036854"
    and "\<forall>s \<in> set vols. - 9223372036854 \<le> fst s \<and> fst s \<le> 9223372036854"
  shows "fetch_historical_market_chart
           (Decoded (Chart_Object [(''prices'', prices), (''total_volumes'', vols)]))
         = chart_frame prices vols"
  using with_dates_samples [OF assms(1)] with_dates_samples [OF assms(2)]
  by (simp add: fetch_historical_market_chart_def chart_rows_samples series_get_def
      and_then_def chart_frame_def)

section \<open>An empty series\<close>

text \<open>
  C7: when the price series or the volume series of the payload is empty (or its key is
  missing), the chart is the empty frame: prices without volumes, or volumes without
  prices, are no data.
\<close>

theorem empty_series_is_no_data:
  "series_get d ''prices'' = [] \<or> series_get d ''total_volumes'' = [] \<Longrightarrow>
     fetch_historical_market_chart (Decoded (Chart_Object d)) = []"
  by (auto simp: fetch_historical_market_chart_def chart_rows_samples)

theorem empty_series_is_no_data_witness:
  "fetch_historical_market_chart
     (Decoded (Chart_Object [(''prices'', [(1000, Some 10), (2000, Some 20)])])) = []
   \<and> fetch_historical_market_chart
     (Decoded (Chart_Object [(''prices'', []), (''total_volumes'', [(1000, Some 5)])])) = []"
  using empty_series_is_no_data [of "[(''prices'', [(1000, Some 10), (2000, Some 20)])]"]
    empty_series_is_no_data [of "[(''prices'', []), (''total_volumes'', [(1000, Some 5)])]"]
  by (simp add: series_get_def)

section \<open>Failed exchanges and malformed payloads\<close>












section \<open>The join and the reconstructed bars\<close>

lemma merge_on_date_Nil: "merge_on_date [] vols = []"
  by (simp add: merge_on_date_def)

lemma merge_on_date_Cons:
  "merge_on_date ((t, c) # prices) vols =
     map (\<lambda>(u, v). \<lparr>date = t, close = c, volume_j = v\<rparr>) (filter (\<lambda>(u, v). u = t) vols)
     @ merge_on_date prices vols"
  by (simp add: merge_on_date_def)

lemma in_matching_rows:
  "r \<in> set (map (\<lambda>(u, v). \<lparr>date = t, close = c, volume_j = v\<rparr>)
                (filter (\<lambda>(u, v). u = t) vols))
     \<longleftrightarrow> date r = t \<and> close r = c \<and> (t, volume_j r) \<in> set vols"
  by (induction vols) auto

lemma in_merge_on_date:
  "r \<in> set (merge_on_date prices vols)
     \<longleftrightarrow> (date r, close r) \<in> set prices \<and> (date r, volume_j r) \<in> set vols"
proof (induction prices)
  case Nil
  show ?case by (simp add: merge_on_date_Nil)
next
  case (Cons p prices)
  obtain t c where p: "p = (t, c)" by (cases p)
  show ?case
    unfolding p merge_on_date_Cons set_append Un_iff in_matching_rows Cons.IH
    by auto
qed

lemma length_shift1: "length (shift1 col) = length col"
  by (simp add: shift1_def)

lemma nth_shift1:
  "i < length col \<Longrightarrow> shift1 col ! i = (if i = 0 then None else col ! (i - 1))"
  by (simp add: shift1_def nth_Cons')

lemma length_fillna: "length (fillna col other) = min (length col) (length other)"
  by (simp add: fillna_def)

lemma nth_fillna:
  "i < length col \<Longrightarrow> i < length other \<Longrightarrow>
     fillna col other ! i = (case col ! i of None \<Rightarrow> other ! i | Some v \<Rightarrow> Some v)"
  by (simp add: fillna_def)

lemma length_ohlc_rows: "length (ohlc_rows df) = length df"
  by (simp add: ohlc_rows_def Let_def length_fillna length_shift1)

lemma nth_ohlc_rows:
  assumes "i < length df"
  shows "ohlc_rows df ! i =
     (let op = (if i = 0 then close (df ! 0)
                else case close (df ! (i - 1)) of None \<Rightarrow> close (df ! i) | Some v \<Rightarrow> Some v)
      in \<lparr>idx = i, open_b = op, high_b = row_max op (close (df ! i)),
          low_b = row_min op (close (df ! i)), close_b = close (df ! i),
          volume_b = volume_j (df ! i)\<rparr>)"
proof (cases i)
  case 0
  with assms have "0 < length df" by simp
  with 0 show ?thesis
    by (simp add: ohlc_rows_def Let_def length_fillna length_shift1 nth_fillna nth_shift1)
next
  case (Suc k)
  with assms have "k < length df" "Suc k < length df" by simp_all
  with Suc show ?thesis
    by (simp add: ohlc_rows_def Let_def length_fillna length_shift1 nth_fillna nth_shift1
        split: option.split)
qed

lemma merge_on_date_no_volumes: "merge_on_date prices [] = []"
  by (simp add: merge_on_date_def)

lemma nth_ohlc_rows_complete:
  assumes nn: "\<forall>r \<in> set df. close r \<noteq> None"
    and i: "i < length df"
  shows "\<exists>op c. close (df ! i) = Some c
      \<and> (if i = 0 then close (df ! 0) else close (df ! (i - 1))) = Some op
      \<and> ohlc_rows df ! i = \<lparr>idx = i, open_b = Some op, high_b = Some (max op c),
            low_b = Some (min op c), close_b = Some c, volume_b = volume_j (df ! i)\<rparr>"
proof -
  from nn i obtain c where c: "close (df ! i) = Some c"
    by (metis nth_mem not_None_eq)
  have "(if i = 0 then df ! 0 else df ! (i - 1)) \<in> set df"
    using i by (auto intro: nth_mem)
  with nn obtain op where op: "(if i = 0 then close (df ! 0) else close (df ! (i - 1))) = Some op"
    by (metis (full_types) not_None_eq)
  show ?thesis
    using c op nth_ohlc_rows [OF i]
    by (cases "i = 0") (auto simp: Let_def)
qed

lemma dropna_complete:
  assumes "\<forall>r \<in> set df. close r \<noteq> None \<and> volume_j r \<noteq> None"
  shows "dropna (ohlc_rows df) = ohlc_rows df"
proof -
  have "open_b b \<noteq> None \<and> high_b b \<noteq> None \<and> low_b b \<noteq> None
          \<and> close_b b \<noteq> None \<and> volume_b b \<noteq> None"
    if "b \<in> set (ohlc_rows df)" for b
  proof -
    from that obtain i where i: "i < length df" and b: "b = ohlc_rows df ! i"
      by (auto simp: in_set_conv_nth length_ohlc_rows)
    from assms have nn: "\<forall>r \<in> set df. close r \<noteq> None" by blast
    from assms i have "volume_j (df ! i) \<noteq> None" by (simp add: nth_mem)
    with nth_ohlc_rows_complete [OF nn i] b show ?thesis by auto
  qed
  then show ?thesis
    by (simp add: dropna_def)
qed

lemma merge_on_date_complete:
  assumes "\<forall>s \<in> set prices. snd s \<noteq> None" and "\<forall>s \<in> set vols. snd s \<noteq> None"
  shows "\<forall>r \<in> set (merge_on_date prices vols). close r \<noteq> None \<and> volume_j r \<noteq> None"
  using assms by (fastforce simp: in_merge_on_date)

lemma chart_frame_complete:
  assumes "\<forall>s \<in> set prices. snd s \<noteq> None" and "\<forall>s \<in> set vols. snd s \<noteq> None"
  shows "chart_frame prices vols = ohlc_rows (merge_on_date prices vols)"
proof (cases "prices = [] \<or> vols = []")
  case True
  then have "merge_on_date prices vols = []"
    by (auto simp: merge_on_date_Nil merge_on_date_no_volumes)
  with True show ?thesis
    by (simp add: chart_frame_def ohlc_rows_def fillna_def shift1_def)
next
  case False
  then show ?thesis
    using dropna_complete [OF merge_on_date_complete [OF assms]]
    by (simp add: chart_frame_def)
qed

lemma ohlc_rows_by_index:
  "ohlc_rows df = map (\<lambda>i. ohlc_rows df ! i) [0 ..< length df]"
proof (rule nth_equalityI)
  show "length (ohlc_rows df) = length (map (\<lambda>i. ohlc_rows df ! i) [0 ..< length df])"
    by (simp add: length_ohlc_rows)
next
  fix i assume "i < length (ohlc_rows df)"
  then show "ohlc_rows df ! i = map (\<lambda>i. ohlc_rows df ! i) [0 ..< length df] ! i"
    by (simp add: length_ohlc_rows)
qed

lemma idx_ohlc_rows: "i < length df \<Longrightarrow> idx (ohlc_rows df ! i) = i"
  by (simp add: nth_ohlc_rows Let_def)

lemma ohlc_row_kept:
  assumes "i < length df"
  shows "(open_b (ohlc_rows df ! i) \<noteq> None \<and> high_b (ohlc_rows df ! i) \<noteq> None
          \<and> low_b (ohlc_rows df ! i) \<noteq> None \<and> close_b (ohlc_rows df ! i) \<noteq> None
          \<and> volume_b (ohlc_rows df ! i) \<noteq> None)
     \<longleftrightarrow> close (df ! i) \<noteq> None \<and> volume_j (df ! i) \<noteq> None"
  using assms
  by (cases "close (df ! i)"; cases "close (df ! (i - 1))"; cases "close (df ! 0)")
    (auto simp: nth_ohlc_rows Let_def)

lemma idx_dropna:
  "map idx (dropna (ohlc_rows df))
     = filter (\<lambda>i. close (df ! i) \<noteq> None \<and> volume_j (df ! i) \<noteq> None) [0 ..< length df]"
proof -
  let ?P = "\<lambda>b. open_b b \<noteq> None \<and> high_b b \<noteq> None \<and> low_b b \<noteq> None
                 \<and> close_b b \<noteq> None \<and> volume_b b \<noteq> None"
  let ?Q = "\<lambda>i. close (df ! i) \<noteq> None \<and> volume_j (df ! i) \<noteq> None"
  have "dropna (ohlc_rows df) = filter ?P (map (\<lambda>i. ohlc_rows df ! i) [0 ..< length df])"
    unfolding dropna_def using ohlc_rows_by_index [of df] by simp
  also have "\<dots> = map (\<lambda>i. ohlc_rows df ! i) (filter (\<lambda>i. ?P (ohlc_rows df ! i)) [0 ..< length df])"
    by (simp add: filter_map o_def)
  also have "filter (\<lambda>i. ?P (ohlc_rows df ! i)) [0 ..< length df] = filter ?Q [0 ..< length df]"
    by (rule filter_cong) (simp_all add: ohlc_row_kept del: not_None_eq)
  finally have "map idx (dropna (ohlc_rows df))
      = map (\<lambda>i. idx (ohlc_rows df ! i)) (filter ?Q [0 ..< length df])"
    by (simp add: o_def)
  also have "\<dots> = map (\<lambda>i. i) (filter ?Q [0 ..< length df])"
    by (rule map_cong) (simp_all add: idx_ohlc_rows)
  finally show ?thesis by simp
qed

lemma in_dropna:
  assumes "b \<in> set (dropna (ohlc_rows df))"
  shows "idx b < length df \<and> b = ohlc_rows df ! idx b
     \<and> close (df ! idx b) \<noteq> None \<and> volume_j (df ! idx b) \<noteq> None"
proof -
  from assms have b: "b \<in> set (ohlc_rows df)"
    and kept: "open_b b \<noteq> None \<and> high_b b \<noteq> None \<and> low_b b \<noteq> None
                 \<and> close_b b \<noteq> None \<and> volume_b b \<noteq> None"
    by (simp_all add: dropna_def)
  from b obtain i where i: "i < length df" and bi: "b = ohlc_rows df ! i"
    by (auto simp: in_set_conv_nth length_ohlc_rows)
  then have "idx b = i" by (simp add: idx_ohlc_rows)
  with i bi kept ohlc_row_kept [OF i] show ?thesis by simp
qed

lemma chart_frame_rows:
  "chart_frame prices vols = dropna (ohlc_rows (merge_on_date prices vols))"
proof (cases "prices = [] \<or> vols = []")
  case True
  then have "merge_on_date prices vols = []"
    by (auto simp: merge_on_date_Nil merge_on_date_no_volumes)
  with True show ?thesis
    by (simp add: chart_frame_def ohlc_rows_def fillna_def shift1_def dropna_def)
next
  case False
  then show ?thesis by (simp add: chart_frame_def)
qed

lemma kept_bar:
  assumes "b \<in> set (dropna (ohlc_rows df))"
  shows "close_b b = close (df ! idx b) \<and> volume_b b = volume_j (df ! idx b)
     \<and> open_b b = (if idx b = 0 then close (df ! 0)
                   else case close (df ! (idx b - 1)) of
                          None \<Rightarrow> close (df ! idx b) | Some c \<Rightarrow> Some c)
     \<and> (\<exists>op c. open_b b = Some op \<and> close_b b = Some c
            \<and> high_b b = Some (max op c) \<and> low_b b = Some (min op c))"
proof -
  from in_dropna [OF assms] have i: "idx b < length df" and b: "b = ohlc_rows df ! idx b"
    and c: "close (df ! idx b) \<noteq> None"
    by simp_all
  from c obtain cl where cl: "close (df ! idx b) = Some cl" by blast
  define op where "op = (if idx b = 0 then close (df ! 0)
                   else case close (df ! (idx b - 1)) of
                          None \<Rightarrow> close (df ! idx b) | Some c \<Rightarrow> Some c)"
  define r where "r = ohlc_rows df ! idx b"
  have row: "r = \<lparr>idx = idx b, open_b = op, high_b = row_max op (close (df ! idx b)),
          low_b = row_min op (close (df ! idx b)), close_b = close (df ! idx b),
          volume_b = volume_j (df ! idx b)\<rparr>"
    using nth_ohlc_rows [OF i] by (simp add: Let_def op_def r_def)
  have "\<exists>o'. op = Some o'"
    using cl by (auto simp: op_def split: option.splits)
  then obtain o' where o': "op = Some o'" by blast
  have br: "b = r" using b by (simp add: r_def)
  have r1: "close_b r = close (df ! idx b)" and r2: "volume_b r = volume_j (df ! idx b)"
    and r3: "open_b r = op" and r4: "high_b r = Some (max o' cl)"
    and r5: "low_b r = Some (min o' cl)"
    by (simp_all add: row cl o')
  have b1: "close_b b = close (df ! idx b)" and b2: "volume_b b = volume_j (df ! idx b)"
    and b3: "open_b b = op" and b4: "high_b b = Some (max o' cl)"
    and b5: "low_b b = Some (min o' cl)"
    using r1 r2 r3 r4 r5 by (simp_all add: br)
  have "open_b b = (if idx b = 0 then close (df ! 0)
                   else case close (df ! (idx b - 1)) of
                          None \<Rightarrow> close (df ! idx b) | Some c \<Rightarrow> Some c)"
    using b3 by (simp only: op_def)
  moreover have "\<exists>op c. open_b b = Some op \<and> close_b b = Some c
            \<and> high_b b = Some (max op c) \<and> low_b b = Some (min op c)"
    using b1 b3 b4 b5 cl o' by simp
  ultimately show ?thesis
    using b1 b2 by blast
qed

text \<open>
  C3, as the specification states it: for every pair of sample sequences the first bar
  opens at its own close and every other bar at the close of the bar before it. With a
  \<^verbatim>\<open>null\<close> volume at the first timestamp the first joined row is dropped after the
  opens are computed: the only returned bar closes at 20 and opens at 10, the close of
  the dropped row.
\<close>

theorem null_volume_breaks_open_rule:
  "fetch_historical_market_chart
     (Decoded (Chart_Object [(''prices'', [(1000, Some 10), (2000, Some 20)]),
                             (''total_volumes'', [(1000, None), (2000, Some 7)])]))
     = [\<lparr>idx = 1, open_b = Some 10, high_b = Some 20, low_b = Some 10,
          close_b = Some 20, volume_b = Some 7\<rparr>]"
proof -
  have "fetch_historical_market_chart
     (Decoded (Chart_Object [(''prices'', [(1000, Some 10), (2000, Some 20)]),
                             (''total_volumes'', [(1000, None), (2000, Some 7)])]))
     = chart_frame [(1000, Some 10), (2000, Some 20)] [(1000, None), (2000, Some 7)]"
    by (rule chart_rows_in_range) simp_all
  then show ?thesis
    by (simp add: chart_frame_def merge_on_date_def ohlc_rows_def dropna_def fillna_def
        shift1_def)
qed

text \<open>
  C3, amended: for every pair of sample sequences with timestamps in the datetime range,
  the two series are joined on equal timestamps only (a joined row exists exactly for a
  price sample and a volume sample of one timestamp); the joined rows whose price or
  volume is \<^verbatim>\<open>null\<close> are dropped, and each remaining one is a bar with: close the
  sampled price, volume the matched volume, open the close of the joined row before it,
  dropped or not (the bar's own close when there is no row before it or that close is
  \<^verbatim>\<open>null\<close>), high the larger and low the smaller of open and close. When no sample is
  \<^verbatim>\<open>null\<close>, every joined row is a bar and each bar but the first opens at the close of
  the bar before it. For prices \<open>[(t1,10),(t2,20)]\<close> and volumes \<open>[(t1,5),(t3,9)]\<close> at
  three different times the only joined row is the one at \<open>t1\<close>, and the only bar has
  open, high, low and close 10 and volume 5.
\<close>

theorem join_and_ohlc:
  "(\<forall>s \<in> set prices. - 9223372036854 \<le> fst s \<and> fst s \<le> 9223372036854)
   \<and> (\<forall>s \<in> set vols. - 9223372036854 \<le> fst s \<and> fst s \<le> 9223372036854) \<Longrightarrow>
     fetch_historical_market_chart
       (Decoded (Chart_Object [(''prices'', prices), (''total_volumes'', vols)]))
       = chart_frame prices vols
     \<and> (\<forall>r. r \<in> set (merge_on_date prices vols)
          \<longleftrightarrow> (date r, close r) \<in> set prices \<and> (date r, volume_j r) \<in> set vols)
     \<and> map idx (chart_frame prices vols)
         = filter (\<lambda>i. close (merge_on_date prices vols ! i) \<noteq> None
                      \<and> volume_j (merge_on_date prices vols ! i) \<noteq> None)
             [0 ..< length (merge_on_date prices vols)]
     \<and> (\<forall>b \<in> set (chart_frame prices vols).
          close_b b = close (merge_on_date prices vols ! idx b)
          \<and> volume_b b = volume_j (merge_on_date prices vols ! idx b)
          \<and> open_b b
              = (if idx b = 0 then close (merge_on_date prices vols ! 0)
                 else case close (merge_on_date prices vols ! (idx b - 1)) of
                        None \<Rightarrow> close (merge_on_date prices vols ! idx b)
                      | Some c \<Rightarrow> Some c)
          \<and> (\<exists>op c. open_b b = Some op \<and> close_b b = Some c
                \<and> high_b b = Some (max op c) \<and> low_b b = Some (min op c)))
     \<and> ((\<forall>s \<in> set prices. snd s \<noteq> None) \<and> (\<forall>s \<in> set vols. snd s \<noteq> None) \<longrightarrow>
          length (chart_frame prices vols) = length (merge_on_date prices vols)
          \<and> (\<forall>i < length (merge_on_date prices vols).
               open_b (chart_frame prices vols ! i)
                 = (if i = 0 then close_b (chart_frame prices vols ! 0)
                    else close_b (chart_frame prices vols ! (i - 1)))))
     \<and> (distinct [t1, t2, t3]
        \<and> (\<forall>t \<in> {t1, t2, t3}. - 9223372036854 \<le> t \<and> t \<le> 9223372036854) \<longrightarrow>
          map date (merge_on_date [(t1, Some 10), (t2, Some 20)] [(t1, Some 5), (t3, Some 9)])
            = [t1]
          \<and> fetch_historical_market_chart
              (Decoded (Chart_Object [(''prices'', [(t1, Some 10), (t2, Some 20)]),
                                      (''total_volumes'', [(t1, Some 5), (t3, Some 9)])]))
            = [\<lparr>idx = 0, open_b = Some 10, high_b = Some 10, low_b = Some 10,
                 close_b = Some 10, volume_b = Some 5\<rparr>])"
proof -
  assume range: "(\<forall>s \<in> set prices. - 9223372036854 \<le> fst s \<and> fst s \<le> 9223372036854)
   \<and> (\<forall>s \<in> set vols. - 9223372036854 \<le> fst s \<and> fst s \<le> 9223372036854)"
  define J where "J = merge_on_date prices vols"
  have whole: "fetch_historical_market_chart
       (Decoded (Chart_Object [(''prices'', prices), (''total_volumes'', vols)]))
       = chart_frame prices vols"
    using range by (intro chart_rows_in_range) simp_all
  have frame: "chart_frame prices vols = dropna (ohlc_rows J)"
    by (simp add: chart_frame_rows J_def)
  have join: "\<forall>r. r \<in> set (merge_on_date prices vols)
          \<longleftrightarrow> (date r, close r) \<in> set prices \<and> (date r, volume_j r) \<in> set vols"
    by (simp add: in_merge_on_date)
  have kept: "map idx (chart_frame prices vols)
         = filter (\<lambda>i. close (J ! i) \<noteq> None \<and> volume_j (J ! i) \<noteq> None) [0 ..< length J]"
    unfolding frame by (rule idx_dropna)
  have bars: "\<forall>b \<in> set (chart_frame prices vols).
          close_b b = close (J ! idx b)
          \<and> volume_b b = volume_j (J ! idx b)
          \<and> open_b b
              = (if idx b = 0 then close (J ! 0)
                 else case close (J ! (idx b - 1)) of
                        None \<Rightarrow> close (J ! idx b)
                      | Some c \<Rightarrow> Some c)
          \<and> (\<exists>op c. open_b b = Some op \<and> close_b b = Some c
                \<and> high_b b = Some (max op c) \<and> low_b b = Some (min op c))"
    unfolding frame using kept_bar [of _ J] by blast
  have complete: "length (chart_frame prices vols) = length J
          \<and> (\<forall>i < length J.
               open_b (chart_frame prices vols ! i)
                 = (if i = 0 then close_b (chart_frame prices vols ! 0)
                    else close_b (chart_frame prices vols ! (i - 1))))"
    if nn: "(\<forall>s \<in> set prices. snd s \<noteq> None) \<and> (\<forall>s \<in> set vols. snd s \<noteq> None)"
  proof -
    have all: "chart_frame prices vols = ohlc_rows J"
      using nn by (simp add: chart_frame_complete J_def)
    have Jnn: "\<forall>r \<in> set J. close r \<noteq> None"
      using merge_on_date_complete [of prices vols] nn by (simp add: J_def)
    have "open_b (ohlc_rows J ! i)
        = (if i = 0 then close_b (ohlc_rows J ! 0) else close_b (ohlc_rows J ! (i - 1)))"
      if i: "i < length J" for i
    proof -
      from nth_ohlc_rows_complete [OF Jnn i] obtain op c where
        op: "(if i = 0 then close (J ! 0) else close (J ! (i - 1))) = Some op"
        and row: "ohlc_rows J ! i = \<lparr>idx = i, open_b = Some op, high_b = Some (max op c),
              low_b = Some (min op c), close_b = Some c, volume_b = volume_j (J ! i)\<rparr>"
        by blast
      have prev: "close_b (ohlc_rows J ! k) = close (J ! k)" if "k < length J" for k
        using nth_ohlc_rows_complete [OF Jnn that] by auto
      have "0 < length J" using i by (cases J) simp_all
      moreover have "i - 1 < length J" using i by simp
      ultimately have "close_b (ohlc_rows J ! 0) = close (J ! 0)"
        "close_b (ohlc_rows J ! (i - 1)) = close (J ! (i - 1))"
        by (simp_all add: prev)
      with op row show ?thesis by (cases "i = 0") simp_all
    qed
    then show ?thesis
      by (simp add: all length_ohlc_rows)
  qed
  have example: "distinct [t1, t2, t3]
        \<and> (\<forall>t \<in> {t1, t2, t3}. - 9223372036854 \<le> t \<and> t \<le> 9223372036854) \<longrightarrow>
          map date (merge_on_date [(t1, Some 10), (t2, Some 20)] [(t1, Some 5), (t3, Some 9)])
            = [t1]
          \<and> fetch_historical_market_chart
              (Decoded (Chart_Object [(''prices'', [(t1, Some 10), (t2, Some 20)]),
                                      (''total_volumes'', [(t1, Some 5), (t3, Some 9)])]))
            = [\<lparr>idx = 0, open_b = Some 10, high_b = Some 10, low_b = Some 10,
                 close_b = Some 10, volume_b = Some 5\<rparr>]"
  proof (intro impI)
    assume a: "distinct [t1, t2, t3]
        \<and> (\<forall>t \<in> {t1, t2, t3}. - 9223372036854 \<le> t \<and> t \<le> 9223372036854)"
    then have "fetch_historical_market_chart
              (Decoded (Chart_Object [(''prices'', [(t1, Some 10), (t2, Some 20)]),
                                      (''total_volumes'', [(t1, Some 5), (t3, Some 9)])]))
        = chart_frame [(t1, Some 10), (t2, Some 20)] [(t1, Some 5), (t3, Some 9)]"
      by (intro chart_rows_in_range) simp_all
    with a show "map date (merge_on_date [(t1, Some 10), (t2, Some 20)] [(t1, Some 5), (t3, Some 9)])
            = [t1]
          \<and> fetch_historical_market_chart
              (Decoded (Chart_Object [(''prices'', [(t1, Some 10), (t2, Some 20)]),
                                      (''total_volumes'', [(t1, Some 5), (t3, Some 9)])]))
            = [\<lparr>idx = 0, open_b = Some 10, high_b = Some 10, low_b = Some 10,
                 close_b = Some 10, volume_b = Some 5\<rparr>]"
      by (auto simp: chart_frame_def merge_on_date_def ohlc_rows_def dropna_def fillna_def
          shift1_def)
  qed
  from whole join kept bars complete example show ?thesis
    unfolding J_def by blast
qed

theorem join_and_ohlc_witness:
  "fetch_historical_market_chart
     (Decoded (Chart_Object
        [(''prices'', [(1000, Some 10), (2000, Some 20), (3000, Some 15), (4000, Some 30)]),
         (''total_volumes'', [(1000, Some 5), (2000, None), (3000, Some 7), (5000, Some 2)])]))
     = [\<lparr>idx = 0, open_b = Some 10, high_b = Some 10, low_b = Some 10,
          close_b = Some 10, volume_b = Some 5\<rparr>,
        \<lparr>idx = 2, open_b = Some 20, high_b = Some 20, low_b = Some 15,
          close_b = Some 15, volume_b = Some 7\<rparr>]
   \<and> fetch_historical_market_chart
       (Decoded (Chart_Object [(''prices'', [(1, Some 10), (2, Some 20)]),
                               (''total_volumes'', [(1, Some 5), (3, Some 9)])]))
     = [\<lparr>idx = 0, open_b = Some 10, high_b = Some 10, low_b = Some 10,
          close_b = Some 10, volume_b = Some 5\<rparr>]
   \<and> length (chart_frame [(1000, Some 10), (2000, Some 20)] [(1000, Some 5), (2000, Some 7)])
     = 2
   \<and> open_b (chart_frame [(1000, Some 10), (2000, Some 20)] [(1000, Some 5), (2000, Some 7)] ! 1)
     = close_b (chart_frame [(1000, Some 10), (2000, Some 20)] [(1000, Some 5), (2000, Some 7)] ! 0)"
proof -
  let ?p = "[(1000::int, Some (10::real)), (2000, Some 20), (3000, Some 15), (4000, Some 30)]"
  let ?v = "[(1000::int, Some (5::real)), (2000, None), (3000, Some 7), (5000, Some 2)]"
  let ?q = "[(1000::int, Some (10::real)), (2000, Some 20)]"
  let ?w = "[(1000::int, Some (5::real)), (2000, Some 7)]"
  have h: "(\<forall>s \<in> set ?p. - 9223372036854 \<le> fst s \<and> fst s \<le> 9223372036854)
     \<and> (\<forall>s \<in> set ?v. - 9223372036854 \<le> fst s \<and> fst s \<le> 9223372036854)"
    by simp
  have e: "chart_frame ?p ?v
     = [\<lparr>idx = 0, open_b = Some 10, high_b = Some 10, low_b = Some 10,
          close_b = Some 10, volume_b = Some 5\<rparr>,
        \<lparr>idx = 2, open_b = Some 20, high_b = Some 20, low_b = Some 15,
          close_b = Some 15, volume_b = Some 7\<rparr>]"
    by (simp add: chart_frame_def merge_on_date_def ohlc_rows_def dropna_def fillna_def
        shift1_def)
  have first: "fetch_historical_market_chart
       (Decoded (Chart_Object [(''prices'', ?p), (''total_volumes'', ?v)]))
     = [\<lparr>idx = 0, open_b = Some 10, high_b = Some 10, low_b = Some 10,
          close_b = Some 10, volume_b = Some 5\<rparr>,
        \<lparr>idx = 2, open_b = Some 20, high_b = Some 20, low_b = Some 15,
          close_b = Some 15, volume_b = Some 7\<rparr>]"
    and second: "fetch_historical_market_chart
       (Decoded (Chart_Object [(''prices'', [(1, Some 10), (2, Some 20)]),
                               (''total_volumes'', [(1, Some 5), (3, Some 9)])]))
     = [\<lparr>idx = 0, open_b = Some 10, high_b = Some 10, low_b = Some 10,
          close_b = Some 10, volume_b = Some 5\<rparr>]"
    using join_and_ohlc [OF h, of 1 2 3] e by simp_all
  have k: "(\<forall>s \<in> set ?q. - 9223372036854 \<le> fst s \<and> fst s \<le> 9223372036854)
     \<and> (\<forall>s \<in> set ?w. - 9223372036854 \<le> fst s \<and> fst s \<le> 9223372036854)"
    by simp
  have n: "length (merge_on_date ?q ?w) = 2"
    by (simp add: merge_on_date_def)
  have nn: "(\<forall>s \<in> set ?q. snd s \<noteq> None) \<and> (\<forall>s \<in> set ?w. snd s \<noteq> None)"
    by simp
  from join_and_ohlc [OF k] nn
  have "length (chart_frame ?q ?w) = length (merge_on_date ?q ?w)
          \<and> (\<forall>i < length (merge_on_date ?q ?w).
               open_b (chart_frame ?q ?w ! i)
                 = (if i = 0 then close_b (chart_frame ?q ?w ! 0)
                    else close_b (chart_frame ?q ?w ! (i - 1))))"
    by blast
  then have len: "length (chart_frame ?q ?w) = length (merge_on_date ?q ?w)"
    and opens: "\<forall>i < length (merge_on_date ?q ?w).
               open_b (chart_frame ?q ?w ! i)
                 = (if i = 0 then close_b (chart_frame ?q ?w ! 0)
                    else close_b (chart_frame ?q ?w ! (i - 1)))"
    by blast+
  have third: "length (chart_frame ?q ?w) = 2"
    using len n by (rule trans)
  have one: "(1::nat) < length (merge_on_date ?q ?w)"
    unfolding n by simp
  have fourth: "open_b (chart_frame ?q ?w ! 1) = close_b (chart_frame ?q ?w ! 0)"
    using opens [rule_format, OF one] by simp
  from first second third fourth show ?thesis by blast
qed

section \<open>Timestamps of the returned bars\<close>

text \<open>
  The joined rows follow the price series: when its timestamps increase strictly and the
  volume series has no timestamp twice, the dates of the joined rows increase strictly.
\<close>

lemma dates_matching_rows:
  "map date (map (\<lambda>(u, v). \<lparr>date = t, close = c, volume_j = v\<rparr>) rows)
     = replicate (length rows) t"
  by (induction rows) auto

lemma distinct_one_match:
  "distinct (map fst vols) \<Longrightarrow> length (filter (\<lambda>(u, v). u = t) vols) \<le> 1"
proof (induction vols)
  case Nil
  show ?case by simp
next
  case (Cons a vols)
  obtain u v where a: "a = (u, v)" by (cases a)
  show ?case
  proof (cases "u = t")
    case True
    with Cons.prems a have "t \<notin> fst ` set vols" by simp
    then have "filter (\<lambda>(u, v). u = t) vols = []"
      by (auto simp: filter_empty_conv image_iff)
    with a True show ?thesis by simp
  next
    case False
    with Cons a show ?thesis by simp
  qed
qed

lemma merge_on_date_increasing:
  assumes "sorted_wrt (<) (map fst prices)" and "distinct (map fst vols)"
  shows "sorted_wrt (<) (map date (merge_on_date prices vols))"
  using assms(1)
proof (induction prices)
  case Nil
  show ?case by (simp add: merge_on_date_Nil)
next
  case (Cons p prices)
  obtain t c where p: "p = (t, c)" by (cases p)
  from Cons.prems p have later: "\<forall>s \<in> set prices. t < fst s" and rest: "sorted_wrt (<) (map fst prices)"
    by auto
  have a: "\<forall>r \<in> set (merge_on_date prices vols). t < date r"
    using later by (fastforce simp: in_merge_on_date)
  have "length (filter (\<lambda>(u, v). u = t) vols) \<le> 1"
    using assms(2) by (rule distinct_one_match)
  then have b: "sorted_wrt (<) (replicate (length (filter (\<lambda>(u, v). u = t) vols)) t)"
    by (cases "length (filter (\<lambda>(u, v). u = t) vols)") auto
  show ?case
    unfolding p merge_on_date_Cons map_append dates_matching_rows
    using a b Cons.IH [OF rest] by (auto simp: sorted_wrt_append)
qed

text \<open>
  The returned frame does not depend on the timestamps beyond the matching: moving every
  timestamp of both series by the same amount leaves it unchanged.
\<close>

lemma matching_rows_shift:
  "map (\<lambda>(u, v). \<lparr>date = t + d, close = c, volume_j = v\<rparr>)
       (filter (\<lambda>(u, v). u = t + d) (map (\<lambda>(t, x). (t + d, x)) vols))
     = map (\<lambda>r. r\<lparr>date := date r + d\<rparr>)
         (map (\<lambda>(u, v). \<lparr>date = t, close = c, volume_j = v\<rparr>)
            (filter (\<lambda>(u, v). u = t) vols))"
  by (induction vols) auto

lemma merge_on_date_shift:
  "merge_on_date (map (\<lambda>(t, x). (t + d, x)) prices) (map (\<lambda>(t, x). (t + d, x)) vols)
     = map (\<lambda>r. r\<lparr>date := date r + d\<rparr>) (merge_on_date prices vols)"
proof (induction prices)
  case Nil
  show ?case by (simp add: merge_on_date_Nil)
next
  case (Cons p prices)
  obtain t c where p: "p = (t, c)" by (cases p)
  show ?case
    unfolding p by (simp add: merge_on_date_Cons matching_rows_shift Cons.IH del: map_map)
qed

lemma ohlc_rows_ignores_date:
  "ohlc_rows (map (\<lambda>r. r\<lparr>date := f r\<rparr>) df) = ohlc_rows df"
  by (simp add: ohlc_rows_def Let_def zip_map2 o_def split_def)

lemma chart_frame_shift:
  "chart_frame (map (\<lambda>(t, x). (t + d, x)) prices) (map (\<lambda>(t, x). (t + d, x)) vols)
     = chart_frame prices vols"
  by (simp add: chart_frame_def merge_on_date_shift ohlc_rows_ignores_date)

text \<open>
  C6 claims that each returned bar carries its timestamp and that the timestamps
  increase strictly along the returned frame. The code at two samples, at 1000 and at
  2000: line 83 keeps the columns open, high, low, close and volume only, line 84 leaves
  the index as the merge made it, and the two bars are labelled 0 and 1. No timestamp is
  in the frame: it is the same when every timestamp of the payload is moved by \<open>d\<close>.
\<close>

theorem bars_carry_no_timestamp:
  "chart_frame [(1000, Some 10), (2000, Some 20)] [(1000, Some 5), (2000, Some 7)]
     = [\<lparr>idx = 0, open_b = Some 10, high_b = Some 10, low_b = Some 10,
          close_b = Some 10, volume_b = Some 5\<rparr>,
        \<lparr>idx = 1, open_b = Some 10, high_b = Some 20, low_b = Some 10,
          close_b = Some 20, volume_b = Some 7\<rparr>]
   \<and> chart_frame (map (\<lambda>(t, x). (t + d, x)) prices) (map (\<lambda>(t, x). (t + d, x)) vols)
     = chart_frame prices vols"
proof
  show "chart_frame [(1000, Some 10), (2000, Some 20)] [(1000, Some 5), (2000, Some 7)]
     = [\<lparr>idx = 0, open_b = Some 10, high_b = Some 10, low_b = Some 10,
          close_b = Some 10, volume_b = Some 5\<rparr>,
        \<lparr>idx = 1, open_b = Some 10, high_b = Some 20, low_b = Some 10,
          close_b = Some 20, volume_b = Some 7\<rparr>]"
    by (simp add: chart_frame_def merge_on_date_def ohlc_rows_def dropna_def fillna_def
        shift1_def)
  show "chart_frame (map (\<lambda>(t, x). (t + d, x)) prices) (map (\<lambda>(t, x). (t + d, x)) vols)
     = chart_frame prices vols"
    by (rule chart_frame_shift)
qed

section \<open>The plotted sparkline\<close>

text \<open>
  C10: for every list passed to \<^verbatim>\<open>build_sparkline\<close> the plotted \<^verbatim>\<open>y\<close> is \<open>[0, 0]\<close>: the
  guard asks for an attribute \<^verbatim>\<open>iter\<close>, which a list does not have (it has
  \<^verbatim>\<open>__iter__\<close>), so the values of the list never reach the figure.
\<close>

theorem build_sparkline_ignores_series:
  "build_sparkline series = [0, 0] \<and> \<not> hasattr_list ''iter'' \<and> hasattr_list ''__iter__''"
  by (simp add: build_sparkline_def hasattr_list_def list_attributes_def)

end
